theory Spec2Isabelle
  imports Complex_Main
begin

section \<open>Exceptions and external calls\<close>

text \<open>
  Every exception the pipeline can raise derives from Python's \<open>Exception\<close>; it is a
  value carrying its message. \<open>error_str\<close> is \<open>str(e)\<close>.
\<close>

datatype error =
    ValueError string
  | IndexError string
  | OSError string
  | ProviderError string
  | ZeroDivisionError string
  | OverflowError string

fun error_str :: "error \<Rightarrow> string" where
  "error_str (ValueError m) = m"
| "error_str (IndexError m) = m"
| "error_str (OSError m) = m"
| "error_str (ProviderError m) = m"
| "error_str (ZeroDivisionError m) = m"
| "error_str (OverflowError m) = m"

text \<open>
  The calls that leave the process: the embedding provider (one query, or a batch of
  documents) and the chat model (system message, human message).
\<close>

datatype call =
    EmbedQuery string
  | EmbedDocuments "string list"
  | LlmInvoke string string

section \<open>Python floats\<close>

text \<open>
  A Python float is an IEEE 754 double: a finite value, an infinity or NaN. A finite
  double is kept as the real number it denotes; the sign of zero is not kept.
\<close>

datatype pyfloat = Fin real | PInf | NInf | NaN

text \<open>Rounding to the nearest integer, an exact half to the even neighbour.\<close>

definition round_half_even :: "real \<Rightarrow> int" where
  "round_half_even z =
     (let f = \<lfloor>z\<rfloor>; d = z - of_int f
      in if d < 1 / 2 then f else if 1 / 2 < d then f + 1 else if even f then f else f + 1)"

definition pow2 :: "int \<Rightarrow> real" where
  "pow2 k = (if 0 \<le> k then 2 ^ nat k else 1 / 2 ^ nat (- k))"

text \<open>
  The binary exponent of a positive number, found by halving or doubling and kept within
  the exponents of a double: at most 1024 (reached only by numbers that overflow) and at
  least -1022 (below which doubles are subnormal and share one spacing).
\<close>

function exp_up :: "int \<Rightarrow> real \<Rightarrow> int" where
  "exp_up e a = (if 2 \<le> a \<and> e < 1024 then exp_up (e + 1) (a / 2) else e)"
  by pat_completeness auto
termination
  by (relation "measure (\<lambda>(e, a). nat (1024 - e))") auto

function exp_down :: "int \<Rightarrow> real \<Rightarrow> int" where
  "exp_down e a = (if a < 1 \<and> - 1022 < e then exp_down (e - 1) (a * 2) else e)"
  by pat_completeness auto
termination
  by (relation "measure (\<lambda>(e, a). nat (e + 1022))") auto

declare exp_up.simps [simp del] exp_down.simps [simp del]

definition binade :: "real \<Rightarrow> int" where
  "binade a = (if 1 \<le> a then exp_up 0 a else exp_down 0 a)"

text \<open>
  \<open>fl x\<close> is the double nearest to the real number \<open>x\<close>: 53 significant bits, an exact
  half to the even significand, an infinity when the rounded value reaches \<open>2 ^ 1024\<close>.
  Every arithmetic operation on doubles is the exact operation followed by \<open>fl\<close>.
\<close>

definition fl :: "real \<Rightarrow> pyfloat" where
  "fl x =
     (if x = 0 then Fin 0
      else
        let a = \<bar>x\<bar>;
            ulp = pow2 (binade a - 52);
            y = of_int (round_half_even (a / ulp)) * ulp
        in if pow2 1024 \<le> y then (if 0 < x then PInf else NInf)
           else Fin (if 0 < x then y else - y))"

text \<open>
  Negation, absolute value, addition, subtraction and the comparisons \<open><\<close> and \<open>\<ge>\<close> of
  doubles. Two finite doubles add to the rounded exact sum; the infinities and NaN follow
  IEEE 754, and every comparison with NaN is false.
\<close>

fun fneg :: "pyfloat \<Rightarrow> pyfloat" where
  "fneg (Fin x) = Fin (- x)"
| "fneg PInf = NInf"
| "fneg NInf = PInf"
| "fneg NaN = NaN"

fun fabs :: "pyfloat \<Rightarrow> pyfloat" where
  "fabs (Fin x) = Fin \<bar>x\<bar>"
| "fabs PInf = PInf"
| "fabs NInf = PInf"
| "fabs NaN = NaN"

fun fadd :: "pyfloat \<Rightarrow> pyfloat \<Rightarrow> pyfloat" where
  "fadd (Fin x) (Fin y) = fl (x + y)"
| "fadd NaN b = NaN"
| "fadd a NaN = NaN"
| "fadd PInf NInf = NaN"
| "fadd NInf PInf = NaN"
| "fadd PInf b = PInf"
| "fadd a PInf = PInf"
| "fadd NInf b = NInf"
| "fadd a NInf = NInf"

definition fsub :: "pyfloat \<Rightarrow> pyfloat \<Rightarrow> pyfloat" where
  "fsub a b = fadd a (fneg b)"

fun flt :: "pyfloat \<Rightarrow> pyfloat \<Rightarrow> bool" where
  "flt (Fin x) (Fin y) = (x < y)"
| "flt NaN b = False"
| "flt a NaN = False"
| "flt a NInf = False"
| "flt NInf b = True"
| "flt PInf b = False"
| "flt a PInf = True"

fun fge :: "pyfloat \<Rightarrow> pyfloat \<Rightarrow> bool" where
  "fge (Fin x) (Fin y) = (y \<le> x)"
| "fge NaN b = False"
| "fge a NaN = False"
| "fge PInf b = True"
| "fge a NInf = True"
| "fge a PInf = False"
| "fge NInf b = False"

fun is_finite :: "pyfloat \<Rightarrow> bool" where
  "is_finite (Fin x) = True"
| "is_finite v = False"

text \<open>
  \<open>sum\<close> on a list of floats starts from the integer 0, adds the first item to it and
  then stays in doubles. Before Python 3.12 it adds the items one by one (\<open>Plain\<close>);
  from 3.12 on it carries Neumaier's compensation \<open>c\<close> along and adds it at the end, unless
  it is zero or not finite (\<open>Compensated\<close>).
\<close>

datatype sum_algorithm = Plain | Compensated

fun neumaier :: "pyfloat \<Rightarrow> pyfloat \<Rightarrow> pyfloat list \<Rightarrow> pyfloat" where
  "neumaier f_result c [] = (if c \<noteq> Fin 0 \<and> is_finite c then fadd f_result c else f_result)"
| "neumaier f_result c (x # items) =
     (let t = fadd f_result x;
          c' = (if fge (fabs f_result) (fabs x)
                then fadd c (fadd (fsub f_result t) x)
                else fadd c (fadd (fsub x t) f_result))
      in neumaier t c' items)"

fun py_sum :: "sum_algorithm \<Rightarrow> pyfloat list \<Rightarrow> pyfloat" where
  "py_sum alg [] = Fin 0"
| "py_sum Plain (x # items) = foldl fadd (fadd (Fin 0) x) items"
| "py_sum Compensated (x # items) = neumaier (fadd (Fin 0) x) (Fin 0) items"

text \<open>
  \<open>x / n\<close> for a float and an integer \<open>n\<close> that is the length of a list: the length is
  below \<open>2 ^ 53\<close>, so its conversion to a double is exact. Division by 0 raises.
\<close>

definition float_truediv_int :: "pyfloat \<Rightarrow> nat \<Rightarrow> error + pyfloat" where
  "float_truediv_int a n =
     (if n = 0 then Inl (ZeroDivisionError ''float division by zero'')
      else Inr (case a of Fin x \<Rightarrow> fl (x / real n) | v \<Rightarrow> v))"

text \<open>
  \<open>min(a, b)\<close> and \<open>max(a, b)\<close> keep the first argument unless the second is smaller
  (larger); a comparison with NaN is false.
\<close>

definition py_min :: "pyfloat \<Rightarrow> pyfloat \<Rightarrow> pyfloat" where
  "py_min a b = (if flt b a then b else a)"

definition py_max :: "pyfloat \<Rightarrow> pyfloat \<Rightarrow> pyfloat" where
  "py_max a b = (if flt a b then b else a)"

text \<open>
  \<open>round(x, ndigits)\<close> on a float: the decimal number with \<open>ndigits\<close> places nearest to
  the exact value of \<open>x\<close>, an exact half to the even last digit, converted back to the
  nearest double; an infinity or NaN is returned as it is.
\<close>

definition py_round :: "pyfloat \<Rightarrow> nat \<Rightarrow> error + pyfloat" where
  "py_round v ndigits =
     (case v of
        Fin x \<Rightarrow>
          (case fl (of_int (round_half_even (x * 10 ^ ndigits)) / 10 ^ ndigits) of
             Fin y \<Rightarrow> Inr (Fin y)
           | overflow \<Rightarrow> Inl (OverflowError ''rounded value too large to represent''))
      | v \<Rightarrow> Inr v)"

section \<open>External libraries and process state\<close>

text \<open>
  The code never looks inside an embedding: a query vector \<open>'v\<close> and an embedding matrix
  \<open>'m\<close> are only handed from the provider to \<open>cosine_similarity\<close>. The library calls are
  parameters, each of which may raise:
  \<^item> \<open>new_embeddings_model\<close>, \<open>new_llm\<close>: the constructors \<open>OpenAIEmbeddings(...)\<close> and
    \<open>ChatOpenAI(...)\<close>; \<open>None\<close> when the client is built, \<open>Some e\<close> when building raises;
  \<^item> \<open>embed_query\<close>: \<open>OpenAIEmbeddings.embed_query\<close>, reshaped to one row;
  \<^item> \<open>embed_documents\<close>: \<open>OpenAIEmbeddings.embed_documents\<close>, as an array;
  \<^item> \<open>cosine_similarity\<close>: row 0 of scikit-learn's \<open>cosine_similarity\<close>, one score per
    row of the matrix; the scores are finite doubles, kept as the reals they denote;
  \<^item> \<open>argsort\<close>: numpy's \<open>argsort\<close> with its default sort, which puts the indices in
    ascending order of score and does not say in which order it leaves equal scores;
  \<^item> \<open>llm_invoke\<close>: \<open>ChatOpenAI.invoke\<close> on a system and a human message, giving the
    content of the reply;
  \<^item> \<open>float_sum\<close>: which of the two summations the interpreter's \<open>sum\<close> performs.
\<close>

record ('v, 'm) externals =
  new_embeddings_model :: "error option"
  new_llm :: "error option"
  embed_query :: "string \<Rightarrow> error + 'v"
  embed_documents :: "string list \<Rightarrow> error + 'm"
  cosine_similarity :: "'v \<Rightarrow> 'm \<Rightarrow> error + real list"
  argsort :: "real list \<Rightarrow> nat list"
  llm_invoke :: "string \<Rightarrow> string \<Rightarrow> error + string"
  float_sum :: sum_algorithm

text \<open>
  The module-level state: the two lazily built client singletons
  (\<open>_embeddings_model\<close> in app/retriever.py, \<open>llm\<close> in app/generator.py; \<open>True\<close> once
  built) and the log of external calls made so far.
\<close>

record world =
  embeddings_model :: bool
  llm :: bool
  calls :: "call list"

definition get_embeddings_model :: "('v, 'm) externals \<Rightarrow> world \<Rightarrow> (error + unit) \<times> world" where
  "get_embeddings_model ext w =
     (if embeddings_model w then (Inr (), w)
      else case new_embeddings_model ext of
             Some e \<Rightarrow> (Inl e, w)
           | None \<Rightarrow> (Inr (), w\<lparr>embeddings_model := True\<rparr>))"

definition get_llm :: "('v, 'm) externals \<Rightarrow> world \<Rightarrow> (error + unit) \<times> world" where
  "get_llm ext w =
     (if llm w then (Inr (), w)
      else case new_llm ext of
             Some e \<Rightarrow> (Inl e, w)
           | None \<Rightarrow> (Inr (), w\<lparr>llm := True\<rparr>))"

definition record_call :: "call \<Rightarrow> world \<Rightarrow> world" where
  "record_call c w = w\<lparr>calls := calls w @ [c]\<rparr>"

section \<open>Python and numpy primitives\<close>

text \<open>
  A \<open>char\<close> stands for a code point below 256. \<open>py_isspace\<close> is \<open>str.isspace\<close> on
  those: tab to carriage return, the four separators 0x1C to 0x1F, space, NEL and the
  no-break space.
\<close>

definition py_isspace :: "char \<Rightarrow> bool" where
  "py_isspace c =
     (let n = (of_char c :: nat)
      in (9 \<le> n \<and> n \<le> 13) \<or> (28 \<le> n \<and> n \<le> 32) \<or> n = 133 \<or> n = 160)"

definition py_strip :: "string \<Rightarrow> string" where
  "py_strip s = rev (dropWhile py_isspace (rev (dropWhile py_isspace s)))"

definition py_endswith :: "string \<Rightarrow> string \<Rightarrow> bool" where
  "py_endswith s suffix =
     (length suffix \<le> length s \<and> drop (length s - length suffix) s = suffix)"

fun py_join :: "string \<Rightarrow> string list \<Rightarrow> string" where
  "py_join sep [] = []"
| "py_join sep [x] = x"
| "py_join sep (x # y # ys) = x @ sep @ py_join sep (y # ys)"

text \<open>
  \<open>xs[start:]\<close>: a negative start counts from the end and is clipped at the front, a
  start beyond the end gives the empty list.
\<close>

definition py_slice_from :: "int \<Rightarrow> 'a list \<Rightarrow> 'a list" where
  "py_slice_from start xs =
     (let n = int (length xs);
          lo = (if start < 0 then max 0 (n + start) else min start n)
      in drop (nat lo) xs)"

text \<open>
  \<open>[xs[i] for i in idx]\<close> on a Python list or a numpy array, for indices that are not
  negative: the first index out of range raises.
\<close>

fun gather :: "'a list \<Rightarrow> nat list \<Rightarrow> error + 'a list" where
  "gather xs [] = Inr []"
| "gather xs (i # idx) =
     (if i < length xs
      then (case gather xs idx of Inl e \<Rightarrow> Inl e | Inr ys \<Rightarrow> Inr (xs ! i # ys))
      else Inl (IndexError ''list index out of range''))"

section \<open>Retrieval (app/retriever.py)\<close>

definition embed_texts ::
  "('v, 'm) externals \<Rightarrow> string list \<Rightarrow> world \<Rightarrow> (error + 'm) \<times> world" where
  "embed_texts ext texts w =
     (case get_embeddings_model ext w of
        (Inl e, w1) \<Rightarrow> (Inl e, w1)
      | (Inr model, w1) \<Rightarrow>
          (embed_documents ext texts, record_call (EmbedDocuments texts) w1))"

definition top_idx :: "('v, 'm) externals \<Rightarrow> real list \<Rightarrow> int \<Rightarrow> nat list" where
  "top_idx ext scores k = rev (py_slice_from (- k) (argsort ext scores))"

definition retrieve ::
  "('v, 'm) externals \<Rightarrow> string \<Rightarrow> string list \<Rightarrow> 'm \<Rightarrow> int \<Rightarrow> world
     \<Rightarrow> (error + string list \<times> real list) \<times> world" where
  "retrieve ext query documents doc_embeddings k w =
     (case get_embeddings_model ext w of
        (Inl e, w1) \<Rightarrow> (Inl e, w1)
      | (Inr model, w1) \<Rightarrow>
          (let w2 = record_call (EmbedQuery query) w1
           in case embed_query ext query of
                Inl e \<Rightarrow> (Inl e, w2)
              | Inr query_vector \<Rightarrow>
                  (case cosine_similarity ext query_vector doc_embeddings of
                     Inl e \<Rightarrow> (Inl e, w2)
                   | Inr scores \<Rightarrow>
                       (case gather documents (top_idx ext scores k) of
                          Inl e \<Rightarrow> (Inl e, w2)
                        | Inr top_docs \<Rightarrow>
                            (case gather scores (top_idx ext scores k) of
                               Inl e \<Rightarrow> (Inl e, w2)
                             | Inr top_scores \<Rightarrow> (Inr (top_docs, top_scores), w2))))))"

section \<open>Answer generation (app/generator.py)\<close>

definition nl :: string where
  "nl = [CHR 0x0A]"

definition prompt :: "string \<Rightarrow> string \<Rightarrow> string" where
  "prompt question context =
     nl @ ''Answer using ONLY the context below.'' @ nl @ nl @
     ''Context:'' @ nl @ context @ nl @ nl @
     ''Question:'' @ nl @ question @ nl"

definition generate_answer ::
  "('v, 'm) externals \<Rightarrow> string \<Rightarrow> string \<Rightarrow> world \<Rightarrow> (error + string) \<times> world" where
  "generate_answer ext question context w =
     (case get_llm ext w of
        (Inl e, w1) \<Rightarrow> (Inl e, w1)
      | (Inr client, w1) \<Rightarrow>
          (llm_invoke ext ''You are a helpful assistant.'' (prompt question context),
           record_call
             (LlmInvoke ''You are a helpful assistant.'' (prompt question context)) w1))"

section \<open>Confidence estimation and orchestration (app/rag\_graph.py)\<close>

definition compute_confidence :: "sum_algorithm \<Rightarrow> pyfloat list \<Rightarrow> error + pyfloat" where
  "compute_confidence alg sim_scores =
     (if sim_scores = [] then Inr (Fin 0)
      else
        case float_truediv_int (py_sum alg sim_scores) (length sim_scores) of
          Inl e \<Rightarrow> Inl e
        | Inr avg_score \<Rightarrow> py_round (py_max (Fin 0) (py_min (Fin 1) avg_score)) 2)"






definition rag ::
  "('v, 'm) externals \<Rightarrow> string \<Rightarrow> string list \<Rightarrow> 'm \<Rightarrow> int \<Rightarrow> world
     \<Rightarrow> (error + string \<times> string list \<times> pyfloat) \<times> world" where
  "rag ext question documents doc_embeddings k w =
     (case retrieve ext question documents doc_embeddings k w of
        (Inl e, w1) \<Rightarrow> (Inl e, w1)
      | (Inr (retrieved_docs, sim_scores), w1) \<Rightarrow>
          (case generate_answer ext question (py_join nl retrieved_docs) w1 of
             (Inl e, w2) \<Rightarrow> (Inl e, w2)
           | (Inr reply, w2) \<Rightarrow>
               (case compute_confidence (float_sum ext) (map Fin sim_scores) of
                  Inl e \<Rightarrow> (Inl e, w2)
                | Inr conf \<Rightarrow> (Inr (reply, retrieved_docs, conf), w2))))"

section \<open>Document loading (app/ingest.py)\<close>

text \<open>
  \<open>read_lines path\<close> is \<open>open(path, "r", encoding="utf-8")\<close> iterated line by line:
  the lines of the file, or the exception of a missing or undecodable file.
\<close>

definition load_txt :: "(string \<Rightarrow> error + string list) \<Rightarrow> string \<Rightarrow> error + string list" where
  "load_txt read_lines path =
     (case read_lines path of
        Inl e \<Rightarrow> Inl e
      | Inr f \<Rightarrow> Inr (map py_strip (filter (\<lambda>line. py_strip line \<noteq> []) f)))"

text \<open>
  \<open>pdf_pages path\<close> is \<open>PyPDFLoader(path).load()\<close>: the text of each page, or the
  exception of the loader. \<open>load_pdf\<close> is called at startup and by the batch ingestion
  only, never by \<open>load_documents\<close>.
\<close>

definition load_pdf :: "(string \<Rightarrow> error + string list) \<Rightarrow> string \<Rightarrow> error + string list" where
  "load_pdf pdf_pages path =
     (case pdf_pages path of Inl e \<Rightarrow> Inl e | Inr docs \<Rightarrow> Inr docs)"

definition load_documents :: "(string \<Rightarrow> error + string list) \<Rightarrow> string \<Rightarrow> error + string list" where
  "load_documents read_lines path =
     (if py_endswith path ''.txt'' then load_txt read_lines path
      else Inl (ValueError (''Unsupported file format: '' @ path)))"

definition build_index ::
  "('v, 'm) externals \<Rightarrow> (string \<Rightarrow> error + string list) \<Rightarrow> string \<Rightarrow> world
     \<Rightarrow> (error + string list \<times> 'm) \<times> world" where
  "build_index ext read_lines path w =
     (case load_documents read_lines path of
        Inl e \<Rightarrow> (Inl e, w)
      | Inr documents \<Rightarrow>
          (case embed_texts ext documents w of
             (Inl e, w1) \<Rightarrow> (Inl e, w1)
           | (Inr doc_embeddings, w1) \<Rightarrow> (Inr (documents, doc_embeddings), w1)))"

section \<open>The /ask handler (main.py)\<close>

record question_request =
  req_question :: string
  req_k :: int

record question_response =
  resp_question :: string
  resp_k :: int
  answer :: string
  contexts :: "string list"
  confidence :: pyfloat

text \<open>
  \<open>DOCUMENTS\<close> is \<open>None\<close> before startup and a list afterwards; \<open>DOC_EMBEDDINGS\<close> is
  only passed on. The handler's \<open>try\<close>/\<open>except Exception\<close> is the case split on the
  result of \<open>rag\<close>; an \<open>Inl\<close> result of the handler would be an exception leaving it.
\<close>

definition ask_question ::
  "('v, 'm) externals \<Rightarrow> string list option \<Rightarrow> 'm \<Rightarrow> question_request \<Rightarrow> world
     \<Rightarrow> (error + question_response) \<times> world" where
  "ask_question ext DOCUMENTS DOC_EMBEDDINGS payload w =
     (let not_loaded =
            \<lparr>resp_question = req_question payload, resp_k = req_k payload,
             answer = ''Error: Documents not loaded. Check your .env file and ensure OPENAI_API_KEY is set.'',
             contexts = [], confidence = Fin 0\<rparr>
      in case DOCUMENTS of
           None \<Rightarrow> (Inr not_loaded, w)
         | Some [] \<Rightarrow> (Inr not_loaded, w)
         | Some (d # ds) \<Rightarrow>
             if req_question payload = [] \<or> py_strip (req_question payload) = []
             then (Inr \<lparr>resp_question = req_question payload, resp_k = req_k payload,
                        answer = ''Please provide a valid question.'',
                        contexts = [], confidence = Fin 0\<rparr>, w)
             else
               (case rag ext (req_question payload) (d # ds) DOC_EMBEDDINGS (req_k payload) w of
                  (Inr (ans, ctxs, conf), w1) \<Rightarrow>
                    (Inr \<lparr>resp_question = req_question payload, resp_k = req_k payload,
                          answer = ans, contexts = ctxs, confidence = conf\<rparr>, w1)
                | (Inl e, w1) \<Rightarrow>
                    (Inr \<lparr>resp_question = req_question payload, resp_k = req_k payload,
                          answer = ''Error processing question: '' @ error_str e,
                          contexts = [], confidence = Fin 0\<rparr>, w1)))"

section \<open>A deterministic stand-in for the libraries\<close>

text \<open>
  Used to run the pipeline on concrete inputs. Both clients are built, every text embeds
  to the unit vector \<open>[1, 0]\<close> and the chat model echoes the prompt it is given.

  \<open>exact_cosine_similarity\<close> is scikit-learn's computation in exact arithmetic: the query
  and every row are divided by their Euclidean norm (by 1 when the norm is 0) and then
  multiplied; an empty matrix, an empty query or a row of another length than the query
  raises \<open>ValueError\<close>. On vectors with entries 0, 1 and -1 and norm 1, the only ones used
  below, the library's doubles are these exact values.

  \<open>stable_argsort\<close> sorts the indices by score and keeps equal scores in index order.
  Where no two scores are equal every ascending argsort returns the same indices, and an
  array of two equal scores is left as it is by numpy's sorts, which never exchange two
  equal keys; only such arrays are sorted with it below.
\<close>

definition l2_norm :: "real list \<Rightarrow> real" where
  "l2_norm v = sqrt (sum_list (map (\<lambda>x. x * x) v))"

definition normalize :: "real list \<Rightarrow> real list" where
  "normalize v = map (\<lambda>x. x / (if l2_norm v = 0 then 1 else l2_norm v)) v"

definition dot :: "real list \<Rightarrow> real list \<Rightarrow> real" where
  "dot q v = sum_list (map2 (*) q v)"

definition exact_cosine_similarity :: "real list \<Rightarrow> real list list \<Rightarrow> error + real list" where
  "exact_cosine_similarity q m =
     (if m = [] then Inl (ValueError ''Found array with 0 sample(s)'')
      else if q = [] then Inl (ValueError ''Found array with 0 feature(s)'')
      else if list_all (\<lambda>v. length v = length q) m
      then Inr (map (\<lambda>v. dot (normalize q) (normalize v)) m)
      else Inl (ValueError ''Incompatible dimension for X and Y matrices''))"

definition stable_argsort :: "real list \<Rightarrow> nat list" where
  "stable_argsort scores = sort_key (\<lambda>i. scores ! i) [0..<length scores]"

definition stub_ext :: "(real list, real list list) externals" where
  "stub_ext =
     \<lparr>new_embeddings_model = None,
      new_llm = None,
      embed_query = (\<lambda>q. Inr [1, 0]),
      embed_documents = (\<lambda>ts. Inr (map (\<lambda>t. [1, 0]) ts)),
      cosine_similarity = exact_cosine_similarity,
      argsort = stable_argsort,
      llm_invoke = (\<lambda>sys p. Inr p),
      float_sum = Compensated\<rparr>"

definition world0 :: world where
  "world0 = \<lparr>embeddings_model = False, llm = False, calls = []\<rparr>"

section \<open>Properties of rounding\<close>

lemma round_half_even_cases:
  "round_half_even z = \<lfloor>z\<rfloor> \<or> round_half_even z = \<lfloor>z\<rfloor> + 1"
  by (simp add: round_half_even_def Let_def)



lemma round_half_even_le:
  assumes "z \<le> of_int n"
  shows "round_half_even z \<le> n"
proof -
  have fl: "\<lfloor>z\<rfloor> \<le> n" using assms by (simp add: floor_le_iff) 
  show ?thesis
  proof (cases "round_half_even z = \<lfloor>z\<rfloor>")
    case True
    then show ?thesis using fl by simp
  next
    case False
    then have up: "round_half_even z = \<lfloor>z\<rfloor> + 1" using round_half_even_cases by blast
    have "\<not> z - of_int \<lfloor>z\<rfloor> < 1 / 2"
      using False by (auto simp: round_half_even_def Let_def)
    then have "of_int \<lfloor>z\<rfloor> < z" by linarith
    then have "real_of_int \<lfloor>z\<rfloor> < of_int n" using assms by linarith
    then have "\<lfloor>z\<rfloor> < n" by (simp only: of_int_less_iff)
    then show ?thesis using up by simp
  qed
qed

lemma round_half_even_ge:
  assumes "of_int n \<le> z"
  shows "n \<le> round_half_even z"
proof -
  have "n \<le> \<lfloor>z\<rfloor>" using assms by (simp add: le_floor_iff)
  then show ?thesis using round_half_even_cases[of z] by auto
qed


lemma exp_down_le: "exp_down e a \<le> e"
proof (induction e a rule: exp_down.induct)
  case (1 e a)
  show ?case
  proof (cases "a < 1 \<and> - 1022 < e")
    case True
    then have "exp_down e a = exp_down (e - 1) (a * 2)" by (simp add: exp_down.simps[of e a])
    then show ?thesis using 1 True by simp
  next
    case False
    then show ?thesis by (auto simp: exp_down.simps[of e a])
  qed
qed

lemma binade_le_0: "a \<le> 1 \<Longrightarrow> binade a \<le> 0"
  using exp_down_le[of 0 a] by (auto simp: binade_def exp_up.simps[of 0 1])

lemma pow2_pos: "0 < pow2 k"
  by (simp add: pow2_def)


lemma fl_0: "fl 0 = Fin 0"
  by (simp add: fl_def)

lemma fl_unit_interval:
  assumes "0 \<le> x" and "x \<le> 1"
  shows "\<exists>y. fl x = Fin y \<and> 0 \<le> y \<and> y \<le> 1"
proof (cases "x = 0")
  case True
  then show ?thesis by (simp add: fl_0)
next
  case False
  then have pos: "0 < x" using assms(1) by simp
  define k where "k = nat (52 - binade x)"
  define N :: int where "N = 2 ^ k"
  have "binade x \<le> 0" using assms(2) by (rule binade_le_0)
  then have ulp: "pow2 (binade x - 52) = 1 / 2 ^ k"
    by (simp add: pow2_def k_def nat_diff_distrib') 
  define m where "m = round_half_even (x * 2 ^ k)"
  have "x * 2 ^ k \<le> 1 * 2 ^ k" using assms(2) by (intro mult_right_mono) simp_all
  then have "x * 2 ^ k \<le> of_int N" by (simp add: N_def)
  then have mN: "m \<le> N" unfolding m_def by (rule round_half_even_le)
  have "of_int 0 \<le> x * 2 ^ k" using assms(1) by simp
  then have m0: "0 \<le> m" unfolding m_def by (rule round_half_even_ge)
  define y where "y = of_int m / (2 ^ k :: real)"
  have y0: "0 \<le> y" using m0 by (simp add: y_def)
  have "real_of_int m \<le> real_of_int N" using mN by simp
  then have "real_of_int m \<le> 2 ^ k" by (simp add: N_def)
  then have y1: "y \<le> 1" by (simp add: y_def field_simps)
  have "(1::real) < pow2 1024" by (simp add: pow2_def)
  then have "\<not> pow2 1024 \<le> y" using y1 by linarith
  then have "fl x = Fin y"
    using pos False by (simp add: fl_def Let_def ulp m_def[symmetric] y_def[symmetric])
  then show ?thesis using y0 y1 by blast
qed

lemma clamp_finite:
  "\<exists>c. py_max (Fin 0) (py_min (Fin 1) v) = Fin c \<and> 0 \<le> c \<and> c \<le> 1"
  by (cases v) (auto simp: py_max_def py_min_def)


lemma py_round_unit_interval:
  assumes "0 \<le> c" and "c \<le> 1"
  shows "\<exists>r. py_round (Fin c) 2 = Inr (Fin r) \<and> 0 \<le> r \<and> r \<le> 1
           \<and> Fin r = fl (of_int (round_half_even (c * 100)) / 100)
           \<and> 0 \<le> round_half_even (c * 100) \<and> round_half_even (c * 100) \<le> 100"
proof -
  define k where "k = round_half_even (c * 100)"
  have "of_int 0 \<le> c * 100" using assms(1) by simp
  then have k0: "0 \<le> k" unfolding k_def by (rule round_half_even_ge)
  have "c * 100 \<le> of_int 100" using assms(2) by simp
  then have k100: "k \<le> 100" unfolding k_def by (rule round_half_even_le)
  have "0 \<le> real_of_int k / 100" using k0 by simp
  moreover have "real_of_int k \<le> real_of_int 100" using k100 by (simp only: of_int_le_iff)
  then have "real_of_int k / 100 \<le> 1" by simp
  ultimately obtain r where r: "fl (real_of_int k / 100) = Fin r" "0 \<le> r" "r \<le> 1"
    using fl_unit_interval by blast
  then have "py_round (Fin c) 2 = Inr (Fin r)" by (simp add: py_round_def k_def[symmetric])
  then show ?thesis using r k0 k100 by (simp add: k_def[symmetric])
qed

text \<open>
  \<open>fl\<close> without its local names, for rewriting a double of a given number to its value.
  The rules \<open>fl_eval\<close> are for closed terms only.
\<close>

lemma fl_unfold:
  "fl x =
     (if x = 0 then Fin 0
      else if pow2 1024 \<le>
                of_int (round_half_even (\<bar>x\<bar> / pow2 (binade \<bar>x\<bar> - 52))) * pow2 (binade \<bar>x\<bar> - 52)
           then (if 0 < x then PInf else NInf)
           else Fin (if 0 < x
                     then of_int (round_half_even (\<bar>x\<bar> / pow2 (binade \<bar>x\<bar> - 52))) * pow2 (binade \<bar>x\<bar> - 52)
                     else - (of_int (round_half_even (\<bar>x\<bar> / pow2 (binade \<bar>x\<bar> - 52))) * pow2 (binade \<bar>x\<bar> - 52))))"
  by (simp add: fl_def Let_def)

lemmas fl_eval = fl_unfold binade_def exp_up.simps exp_down.simps pow2_def round_half_even_def Let_def

section \<open>Properties of the confidence estimator\<close>

text \<open>The confidence never raises and is a finite value in [0, 1], whatever the scores.\<close>

lemma compute_confidence_range:
  "\<exists>r. compute_confidence alg ys = Inr (Fin r) \<and> 0 \<le> r \<and> r \<le> 1"
proof (cases "ys = []")
  case True
  then show ?thesis by (simp add: compute_confidence_def)
next
  case False
  then obtain avg where avg: "float_truediv_int (py_sum alg ys) (length ys) = Inr avg"
    by (simp add: float_truediv_int_def)
  obtain c where c: "py_max (Fin 0) (py_min (Fin 1) avg) = Fin c" "0 \<le> c" "c \<le> 1"
    using clamp_finite by blast
  obtain r where "py_round (Fin c) 2 = Inr (Fin r)" "0 \<le> r" "r \<le> 1"
    using py_round_unit_interval[OF c(2,3)] by blast
  then show ?thesis using False avg c(1) by (auto simp: compute_confidence_def)
qed











lemmas confidence_eval = compute_confidence_def float_truediv_int_def py_max_def py_min_def
  py_round_def fsub_def fl_eval


text \<open>
  The sum is rounded as the interpreter rounds it: \<open>0.25 + 2 ** -60\<close> is \<open>0.25\<close>, so the mean
  is \<open>0.125\<close> and the confidence \<open>0.12\<close>, where the exact mean would round to \<open>0.13\<close>. On
  \<open>[0.375, 2 ** -55, 2 ** -55]\<close> the two summations differ.
\<close>

lemma compute_confidence_double_rounding:
  "compute_confidence alg [Fin (1 / 4), Fin (1 / 2 ^ 60)] = Inr (fl (12 / 100))"
  by (cases alg; simp add: confidence_eval)

lemma compute_confidence_sum_algorithms:
  "compute_confidence Plain [Fin (3 / 8), Fin (1 / 2 ^ 55), Fin (1 / 2 ^ 55)] = Inr (fl (12 / 100))"
  "compute_confidence Compensated [Fin (3 / 8), Fin (1 / 2 ^ 55), Fin (1 / 2 ^ 55)] = Inr (fl (13 / 100))"
  by (simp_all add: confidence_eval)


section \<open>Properties of slicing and gathering\<close>

lemma py_slice_from_drop: "\<exists>m. py_slice_from start xs = drop m xs"
  by (auto simp: py_slice_from_def Let_def)

lemma length_py_slice_from_neg:
  "length (py_slice_from (- k) xs) =
     (if 0 < k then min (nat k) (length xs)
      else if k = 0 then length xs
      else length xs - nat (- k))"
  by (auto simp: py_slice_from_def Let_def min_def max_def)

lemma length_top_idx:
  assumes "length (argsort ext scores) = length scores"
  shows "length (top_idx ext scores k) =
     (if 0 < k then min (nat k) (length scores)
      else if k = 0 then length scores
      else length scores - nat (- k))"
  using assms by (simp add: top_idx_def length_py_slice_from_neg)

lemma gather_Inr:
  "gather xs idx = Inr ys \<Longrightarrow> ys = map (\<lambda>i. xs ! i) idx \<and> (\<forall>i\<in>set idx. i < length xs)"
  by (induction idx arbitrary: ys) (auto split: if_splits sum.splits)

lemma gather_in_range:
  "\<forall>i\<in>set idx. i < length xs \<Longrightarrow> gather xs idx = Inr (map (\<lambda>i. xs ! i) idx)"
  by (induction idx) auto

lemma gather_Inl: "gather xs idx = Inl e \<Longrightarrow> e = IndexError ''list index out of range''"
  by (induction idx) (auto split: if_splits sum.splits)

lemma sorted_top_scores:
  assumes "sorted (map f (argsort ext scores))"
  shows "sorted_wrt (\<lambda>a b. b \<le> a) (map f (top_idx ext scores k))"
proof -
  obtain m where m: "py_slice_from (- k) (argsort ext scores) = drop m (argsort ext scores)"
    using py_slice_from_drop by blast
  have "sorted (drop m (map f (argsort ext scores)))" using assms by (rule sorted_wrt_drop)
  then have "sorted_wrt (\<le>) (map f (drop m (argsort ext scores)))" by (simp add: drop_map)
  then have "sorted_wrt (\<lambda>a b. b \<le> a) (rev (map f (drop m (argsort ext scores))))"
    by (simp add: sorted_wrt_rev)
  then show ?thesis by (simp add: top_idx_def m rev_map)
qed

section \<open>Properties of retrieval and orchestration\<close>

lemmas run_simps = stub_ext_def world0_def exact_cosine_similarity_def normalize_def l2_norm_def
  dot_def stable_argsort_def retrieve_def rag_def generate_answer_def top_idx_def
  py_slice_from_def record_call_def get_embeddings_model_def get_llm_def confidence_eval

lemma retrieve_Inr:
  assumes "retrieve ext q docs embs k w = (Inr (ds, ss), w')"
  shows "\<exists>v scores. embed_query ext q = Inr v \<and> cosine_similarity ext v embs = Inr scores
           \<and> ds = map (\<lambda>i. docs ! i) (top_idx ext scores k)
           \<and> ss = map (\<lambda>i. scores ! i) (top_idx ext scores k)
           \<and> (\<forall>i\<in>set (top_idx ext scores k). i < length docs \<and> i < length scores)"
  using assms
  by (auto simp: retrieve_def Let_def split: sum.splits prod.splits dest!: gather_Inr)

lemma retrieve_Inr_world:
  assumes "retrieve ext q docs embs k w = (Inr r, w')"
  shows "calls w' = calls w @ [EmbedQuery q] \<and> llm w' = llm w"
  using assms
  by (auto simp: retrieve_def Let_def get_embeddings_model_def record_call_def
      split: sum.splits prod.splits if_splits option.splits)

lemma generate_answer_available:
  assumes "llm w \<or> new_llm ext = None"
  shows "fst (generate_answer ext q c w) =
           llm_invoke ext ''You are a helpful assistant.'' (prompt q c)"
    and "calls (snd (generate_answer ext q c w)) =
           calls w @ [LlmInvoke ''You are a helpful assistant.'' (prompt q c)]"
  using assms by (auto simp: generate_answer_def get_llm_def record_call_def)

lemma rag_after_retrieve:
  assumes "retrieve ext q docs embs k w = (Inr (ds, ss), w1)"
    and "llm w \<or> new_llm ext = None"
    and "compute_confidence (float_sum ext) (map Fin ss) = Inr c"
  shows "fst (rag ext q docs embs k w) =
           (case llm_invoke ext ''You are a helpful assistant.'' (prompt q (py_join nl ds)) of
              Inl e \<Rightarrow> Inl e
            | Inr a \<Rightarrow> Inr (a, ds, c))"
    and "calls (snd (rag ext q docs embs k w)) =
           calls w @ [EmbedQuery q,
                      LlmInvoke ''You are a helpful assistant.'' (prompt q (py_join nl ds))]"
proof -
  have w1: "calls w1 = calls w @ [EmbedQuery q]" and l: "llm w1 \<or> new_llm ext = None"
    using retrieve_Inr_world[OF assms(1)] assms(2) by simp_all
  obtain r w2 where g: "generate_answer ext q (py_join nl ds) w1 = (r, w2)"
    by (cases "generate_answer ext q (py_join nl ds) w1")
  have r: "r = llm_invoke ext ''You are a helpful assistant.'' (prompt q (py_join nl ds))"
    using generate_answer_available(1)[OF l, of q "py_join nl ds"] g by simp
  have w2: "calls w2 =
      calls w1 @ [LlmInvoke ''You are a helpful assistant.'' (prompt q (py_join nl ds))]"
    using generate_answer_available(2)[OF l, of q "py_join nl ds"] g by simp
  show "fst (rag ext q docs embs k w) =
           (case llm_invoke ext ''You are a helpful assistant.'' (prompt q (py_join nl ds)) of
              Inl e \<Rightarrow> Inl e
            | Inr a \<Rightarrow> Inr (a, ds, c))"
    using assms(1,3) g r by (simp add: rag_def split: sum.splits)
  show "calls (snd (rag ext q docs embs k w)) =
           calls w @ [EmbedQuery q,
                      LlmInvoke ''You are a helpful assistant.'' (prompt q (py_join nl ds))]"
    using assms(1,3) g w1 w2 by (simp add: rag_def split: sum.splits)
qed

lemma rag_Inr:
  assumes "rag ext q docs embs k w = (Inr (a, ctxs, conf), w')"
  shows "\<exists>ss w1. retrieve ext q docs embs k w = (Inr (ctxs, ss), w1)
           \<and> compute_confidence (float_sum ext) (map Fin ss) = Inr conf"
  using assms by (auto simp: rag_def split: prod.splits sum.splits)

text \<open>
  C1. The retrieval does not return min(k, corpus size) documents when k is not positive.
  \<open>scores.argsort()[-k:]\<close> is the whole array at k = 0, since \<open>-0\<close> is \<open>0\<close>: both documents
  of a two-document corpus come back. At k = -1 the slice is \<open>[1:]\<close>, which drops only the
  lowest-scoring document: two of three come back.
\<close>

theorem retrieve_nonpositive_k_returns_documents:
  "fst (retrieve stub_ext ''q'' [''a'', ''b''] [[1, 0], [0, 1]] 0 world0) =
     Inr ([''a'', ''b''], [1, 0])
   \<and> fst (retrieve stub_ext ''q'' [''a'', ''b'', ''c''] [[1, 0], [0, 1], [- 1, 0]] (- 1) world0) =
     Inr ([''a'', ''b''], [1, 0])"
  by (simp add: run_simps)

text \<open>
  C3, at two documents with the same score and k = 2: the document with the larger original
  index comes first, not the one with the smaller index. The sort leaves the two equal
  scores in place and the code reverses the sorted indices.
\<close>

theorem retrieve_tie_counterexample:
  "fst (retrieve stub_ext ''q'' [''a'', ''b''] [[1, 0], [1, 0]] 2 world0) =
     Inr ([''b'', ''a''], [1, 1])"
  by (simp add: run_simps)

text \<open>
  C3, amended. Whenever the retrieval returns, and argsort has put the indices in
  ascending order of score as numpy does, the returned scores are in non-increasing
  order, each beside its document. Nothing is said of the order among equal scores: it
  is the reverse of the order in which argsort leaves them, which numpy does not fix.
\<close>

theorem retrieve_order:
  assumes "retrieve ext q docs embs k w = (Inr (ds, ss), w')"
    and "embed_query ext q = Inr v"
    and "cosine_similarity ext v embs = Inr scores"
    and "sorted (map (\<lambda>i. scores ! i) (argsort ext scores))"
  shows "sorted_wrt (\<lambda>a b. b \<le> a) ss
       \<and> ds = map (\<lambda>i. docs ! i) (top_idx ext scores k)
       \<and> ss = map (\<lambda>i. scores ! i) (top_idx ext scores k)"
proof -
  have "ds = map (\<lambda>i. docs ! i) (top_idx ext scores k)"
    and ss: "ss = map (\<lambda>i. scores ! i) (top_idx ext scores k)"
    using retrieve_Inr[OF assms(1)] assms(2,3) by auto
  then show ?thesis using sorted_top_scores[OF assms(4), of k] by simp
qed

text \<open>The ordering theorem at three documents with the scores 0, 1 and -1.\<close>

theorem retrieve_order_witness:
  "retrieve stub_ext ''q'' [''a'', ''b'', ''c''] [[0, 1], [1, 0], [- 1, 0]] 3 world0 =
     (Inr ([''b'', ''a'', ''c''], [1, 0, - 1]),
      \<lparr>embeddings_model = True, llm = False, calls = [EmbedQuery ''q'']\<rparr>)
   \<and> embed_query stub_ext ''q'' = Inr [1, 0]
   \<and> cosine_similarity stub_ext [1, 0] [[0, 1], [1, 0], [- 1, 0]] = Inr [0, 1, - 1]
   \<and> argsort stub_ext [0, 1, - 1] = [2, 0, 1]
   \<and> sorted (map (\<lambda>i. [0, 1, - 1 :: real] ! i) (argsort stub_ext [0, 1, - 1]))
   \<and> sorted_wrt (\<lambda>a b. b \<le> a) [1, 0, - 1 :: real]"
proof -
  have r: "retrieve stub_ext ''q'' [''a'', ''b'', ''c''] [[0, 1], [1, 0], [- 1, 0]] 3 world0 =
     (Inr ([''b'', ''a'', ''c''], [1, 0, - 1]),
      \<lparr>embeddings_model = True, llm = False, calls = [EmbedQuery ''q'']\<rparr>)"
    by (simp add: run_simps)
  have e: "embed_query stub_ext ''q'' = Inr [1, 0]" by (simp add: stub_ext_def)
  have c: "cosine_similarity stub_ext [1, 0] [[0, 1], [1, 0], [- 1, 0]] = Inr [0, 1, - 1]"
    by (simp add: run_simps)
  have a: "argsort stub_ext [0, 1, - 1] = [2, 0, 1]"
    by (simp add: stub_ext_def stable_argsort_def)
  have s: "sorted (map (\<lambda>i. [0, 1, - 1 :: real] ! i) (argsort stub_ext [0, 1, - 1]))"
    by (simp add: a)
  note o = retrieve_order[OF r e c s, THEN conjunct1]
  show ?thesis by (intro conjI) (rule r e c a s o)+
qed

text \<open>
  C2, at k = 0 on a one-document corpus: the orchestrator returns that document as context
  with confidence 1.0, and the chat model has been called.
\<close>

theorem rag_k_zero_counterexample:
  "fst (rag stub_ext ''q'' [''a''] [[1, 0]] 0 world0) = Inr (prompt ''q'' ''a'', [''a''], Fin 1)
   \<and> calls (snd (rag stub_ext ''q'' [''a''] [[1, 0]] 0 world0)) =
       [EmbedQuery ''q'', LlmInvoke ''You are a helpful assistant.'' (prompt ''q'' ''a'')]"
  by (simp add: run_simps)

text \<open>
  C2, amended. The orchestrator has no short-circuit on k: whenever the retrieval step
  succeeds and the chat client is available, the Answer Generator is invoked exactly once,
  right after the one query embedding, with the joined documents as context, and its
  reply or its failure is the orchestrator's; the confidence is computed without raising.
  When the retrieval selected no document, the contexts are empty and the confidence is
  0.0.
\<close>

theorem rag_always_generates:
  assumes "retrieve ext q docs embs k w = (Inr (ds, ss), w1)"
    and "llm w \<or> new_llm ext = None"
  shows "calls (snd (rag ext q docs embs k w)) =
           calls w @ [EmbedQuery q,
                      LlmInvoke ''You are a helpful assistant.'' (prompt q (py_join nl ds))]
       \<and> (\<exists>c. compute_confidence (float_sum ext) (map Fin ss) = Inr c
             \<and> fst (rag ext q docs embs k w) =
                 (case llm_invoke ext ''You are a helpful assistant.'' (prompt q (py_join nl ds)) of
                    Inl e \<Rightarrow> Inl e
                  | Inr a \<Rightarrow> Inr (a, ds, c))
             \<and> (ds = [] \<longrightarrow> c = Fin 0))"
proof -
  obtain r where c: "compute_confidence (float_sum ext) (map Fin ss) = Inr (Fin r)"
    using compute_confidence_range by blast
  have "ds = [] \<longrightarrow> ss = []" using retrieve_Inr[OF assms(1)] by auto
  then have "ds = [] \<longrightarrow> Fin r = Fin 0" using c by (auto simp: compute_confidence_def)
  then show ?thesis using rag_after_retrieve[OF assms c] c by blast
qed

text \<open>The theorem at k = -1 on a one-document corpus, where nothing is selected.\<close>

theorem rag_always_generates_witness:
  "retrieve stub_ext ''q'' [''a''] [[1, 0]] (- 1) world0 =
     (Inr ([], []), \<lparr>embeddings_model = True, llm = False, calls = [EmbedQuery ''q'']\<rparr>)
   \<and> new_llm stub_ext = None
   \<and> calls (snd (rag stub_ext ''q'' [''a''] [[1, 0]] (- 1) world0)) =
       [EmbedQuery ''q'', LlmInvoke ''You are a helpful assistant.'' (prompt ''q'' [])]
   \<and> fst (rag stub_ext ''q'' [''a''] [[1, 0]] (- 1) world0) = Inr (prompt ''q'' [], [], Fin 0)"
proof -
  have r: "retrieve stub_ext ''q'' [''a''] [[1, 0]] (- 1) world0 =
     (Inr ([], []), \<lparr>embeddings_model = True, llm = False, calls = [EmbedQuery ''q'']\<rparr>)"
    by (simp add: run_simps)
  have l: "llm world0 \<or> new_llm stub_ext = None" by (simp add: stub_ext_def)
  show ?thesis using rag_always_generates[OF r l] r by (auto simp: stub_ext_def world0_def)
qed

text \<open>
  C10. Whenever the orchestrator returns (for every k, so for 1 \<le> k \<le> corpus size), every
  returned context is an element of the input documents, and the contexts are as many as
  the scores from which the confidence is computed.
\<close>

theorem rag_contexts_from_documents:
  assumes "rag ext q docs embs k w = (Inr (a, ctxs, conf), w')"
  shows "set ctxs \<subseteq> set docs
       \<and> (\<exists>ss w1. retrieve ext q docs embs k w = (Inr (ctxs, ss), w1)
             \<and> length ctxs = length ss
             \<and> compute_confidence (float_sum ext) (map Fin ss) = Inr conf)"
proof -
  obtain ss w1 where r: "retrieve ext q docs embs k w = (Inr (ctxs, ss), w1)"
    and c: "compute_confidence (float_sum ext) (map Fin ss) = Inr conf"
    using rag_Inr[OF assms] by blast
  obtain scores where ds: "ctxs = map (\<lambda>i. docs ! i) (top_idx ext scores k)"
    and ss: "ss = map (\<lambda>i. scores ! i) (top_idx ext scores k)"
    and rng: "\<forall>i\<in>set (top_idx ext scores k). i < length docs \<and> i < length scores"
    using retrieve_Inr[OF r] by blast
  have "set ctxs \<subseteq> set docs" using ds rng by auto
  moreover have "length ctxs = length ss" using ds ss by simp
  ultimately show ?thesis using r c by blast
qed

text \<open>The theorem at k = 1 on a two-document corpus.\<close>

theorem rag_contexts_from_documents_witness:
  "rag stub_ext ''q'' [''a'', ''b''] [[0, 1], [1, 0]] 1 world0 =
     (Inr (prompt ''q'' ''b'', [''b''], Fin 1),
      \<lparr>embeddings_model = True, llm = True,
       calls = [EmbedQuery ''q'', LlmInvoke ''You are a helpful assistant.'' (prompt ''q'' ''b'')]\<rparr>)
   \<and> set [''b''] \<subseteq> set [''a'', ''b'']
   \<and> (\<exists>ss w1. retrieve stub_ext ''q'' [''a'', ''b''] [[0, 1], [1, 0]] 1 world0 = (Inr ([''b''], ss), w1)
         \<and> length [''b''] = length ss
         \<and> compute_confidence (float_sum stub_ext) (map Fin ss) = Inr (Fin 1))"
proof -
  have r: "rag stub_ext ''q'' [''a'', ''b''] [[0, 1], [1, 0]] 1 world0 =
     (Inr (prompt ''q'' ''b'', [''b''], Fin 1),
      \<lparr>embeddings_model = True, llm = True,
       calls = [EmbedQuery ''q'', LlmInvoke ''You are a helpful assistant.'' (prompt ''q'' ''b'')]\<rparr>)"
    by (simp add: run_simps)
  show ?thesis using rag_contexts_from_documents[OF r] r by simp
qed

text \<open>
  C8. The retrieval is deterministic: two calls that obtain the same query vector, on the
  same documents, embeddings and k, return the same documents and scores, whatever the
  query strings and the states of the process (clients built or not, calls made so far).
\<close>

theorem retrieve_deterministic:
  assumes "embeddings_model w1 \<or> new_embeddings_model ext = None"
    and "embeddings_model w2 \<or> new_embeddings_model ext = None"
    and "embed_query ext q1 = Inr v" and "embed_query ext q2 = Inr v"
  shows "fst (retrieve ext q1 docs embs k w1) = fst (retrieve ext q2 docs embs k w2)"
  using assms by (auto simp: retrieve_def get_embeddings_model_def Let_def split: sum.splits)

text \<open>The theorem at two different queries and two different process states.\<close>

theorem retrieve_deterministic_witness:
  "new_embeddings_model stub_ext = None
   \<and> embed_query stub_ext ''x'' = Inr [1, 0] \<and> embed_query stub_ext ''y'' = Inr [1, 0]
   \<and> fst (retrieve stub_ext ''x'' [''a'', ''b''] [[0, 1], [1, 0]] 1 world0) =
       fst (retrieve stub_ext ''y'' [''a'', ''b''] [[0, 1], [1, 0]] 1
             \<lparr>embeddings_model = True, llm = True, calls = [EmbedQuery ''x'']\<rparr>)
   \<and> fst (retrieve stub_ext ''x'' [''a'', ''b''] [[0, 1], [1, 0]] 1 world0) = Inr ([''b''], [1])"
proof -
  have n: "new_embeddings_model stub_ext = None" by (simp add: stub_ext_def)
  have x: "embed_query stub_ext ''x'' = Inr [1, 0]" and y: "embed_query stub_ext ''y'' = Inr [1, 0]"
    by (simp_all add: stub_ext_def)
  have v: "fst (retrieve stub_ext ''x'' [''a'', ''b''] [[0, 1], [1, 0]] 1 world0) = Inr ([''b''], [1])"
    by (simp add: run_simps)
  show ?thesis
    using retrieve_deterministic[OF disjI2[OF n] disjI2[OF n] x y,
        of "[''a'', ''b'']" "[[0, 1], [1, 0]]" 1 world0
        "\<lparr>embeddings_model = True, llm = True, calls = [EmbedQuery ''x'']\<rparr>"] n x y v
    by simp
qed

section \<open>Properties of the /ask handler\<close>

lemma dropWhile_all_left:
  assumes "\<forall>c\<in>set (dropWhile P s). P c"
  shows "dropWhile P s = []"
proof (rule ccontr)
  assume n: "dropWhile P s \<noteq> []"
  then have "\<not> P (hd (dropWhile P s))" by (rule hd_dropWhile)
  moreover have "hd (dropWhile P s) \<in> set (dropWhile P s)" using n by simp
  ultimately show False using assms by blast
qed

lemma py_strip_empty_iff: "py_strip s = [] \<longleftrightarrow> list_all py_isspace s"
proof
  assume "py_strip s = []"
  then have "\<forall>c\<in>set (dropWhile py_isspace s). py_isspace c"
    by (simp add: py_strip_def dropWhile_eq_Nil_conv)
  then have "dropWhile py_isspace s = []" by (rule dropWhile_all_left)
  then show "list_all py_isspace s" by (simp add: dropWhile_eq_Nil_conv list_all_iff)
next
  assume "list_all py_isspace s"
  then have "\<forall>c\<in>set s. py_isspace c" by (simp add: list_all_iff)
  then have d: "dropWhile py_isspace s = []" by (simp only: dropWhile_eq_Nil_conv)
  show "py_strip s = []" unfolding py_strip_def d by simp
qed

text \<open>
  C6. A request whose question is empty or only whitespace is answered with a rejection
  message, no contexts and confidence 0, and the process state is unchanged: no embedding
  or generation call is made and no client is built.
\<close>

theorem ask_blank_question_rejected:
  assumes "list_all py_isspace (req_question payload)"
  shows "ask_question ext DOCUMENTS DOC_EMBEDDINGS payload w =
           (Inr \<lparr>resp_question = req_question payload, resp_k = req_k payload,
                 answer =
                   (case DOCUMENTS of
                      Some (d # ds) \<Rightarrow> ''Please provide a valid question.''
                    | _ \<Rightarrow> ''Error: Documents not loaded. Check your .env file and ensure OPENAI_API_KEY is set.''),
                 contexts = [], confidence = Fin 0\<rparr>, w)"
proof -
  have "py_strip (req_question payload) = []" using assms by (simp add: py_strip_empty_iff)
  then show ?thesis
    by (simp add: ask_question_def Let_def split: option.splits list.splits)
qed

text \<open>The theorem at the question of one space.\<close>

theorem ask_blank_question_rejected_witness:
  "list_all py_isspace '' ''
   \<and> ask_question stub_ext (Some [''a'']) [[1, 0]] \<lparr>req_question = '' '', req_k = 2\<rparr> world0 =
       (Inr \<lparr>resp_question = '' '', resp_k = 2, answer = ''Please provide a valid question.'',
             contexts = [], confidence = Fin 0\<rparr>, world0)"
proof -
  have b: "list_all py_isspace (req_question \<lparr>req_question = '' '', req_k = 2\<rparr>)"
    by (simp add: py_isspace_def)
  show ?thesis
    using ask_blank_question_rejected[OF b, of stub_ext "Some [''a'']" "[[1, 0]]" world0] b
    by simp
qed

text \<open>
  Each failing stage makes the orchestrator fail with the exception of that stage:
  building the embeddings client, embedding the query, scoring, indexing the documents,
  building the chat client, and the chat call.
\<close>

lemma rag_client_failure:
  "\<not> embeddings_model w \<Longrightarrow> new_embeddings_model ext = Some e
     \<Longrightarrow> fst (rag ext q docs embs k w) = Inl e"
  by (simp add: rag_def retrieve_def get_embeddings_model_def)

lemma rag_embedding_failure:
  "embeddings_model w \<or> new_embeddings_model ext = None \<Longrightarrow> embed_query ext q = Inl e
     \<Longrightarrow> fst (rag ext q docs embs k w) = Inl e"
  by (auto simp: rag_def retrieve_def get_embeddings_model_def Let_def)

lemma rag_similarity_failure:
  "embeddings_model w \<or> new_embeddings_model ext = None \<Longrightarrow> embed_query ext q = Inr v
     \<Longrightarrow> cosine_similarity ext v embs = Inl e
     \<Longrightarrow> fst (rag ext q docs embs k w) = Inl e"
  by (auto simp: rag_def retrieve_def get_embeddings_model_def Let_def)

lemma rag_indexing_failure:
  "embeddings_model w \<or> new_embeddings_model ext = None \<Longrightarrow> embed_query ext q = Inr v
     \<Longrightarrow> cosine_similarity ext v embs = Inr scores
     \<Longrightarrow> gather docs (top_idx ext scores k) = Inl e
     \<Longrightarrow> fst (rag ext q docs embs k w) = Inl e"
  by (auto simp: rag_def retrieve_def get_embeddings_model_def Let_def)

lemma rag_chat_client_failure:
  assumes "retrieve ext q docs embs k w = (Inr (ds, ss), w1)"
    and "\<not> llm w" and "new_llm ext = Some e"
  shows "fst (rag ext q docs embs k w) = Inl e"
proof -
  have "\<not> llm w1" using retrieve_Inr_world[OF assms(1)] assms(2) by simp
  then show ?thesis using assms(1,3) by (simp add: rag_def generate_answer_def get_llm_def)
qed

lemma rag_generation_failure:
  assumes "retrieve ext q docs embs k w = (Inr (ds, ss), w1)"
    and "llm w \<or> new_llm ext = None"
    and "llm_invoke ext ''You are a helpful assistant.'' (prompt q (py_join nl ds)) = Inl e"
  shows "fst (rag ext q docs embs k w) = Inl e"
proof -
  obtain r where "compute_confidence (float_sum ext) (map Fin ss) = Inr (Fin r)"
    using compute_confidence_range by blast
  then show ?thesis using rag_after_retrieve(1)[OF assms(1,2)] assms(3) by simp
qed

text \<open>The handler returns a response on every request.\<close>

lemma ask_question_total:
  "\<exists>resp. fst (ask_question ext DOCUMENTS DOC_EMBEDDINGS payload w) = Inr resp"
  by (auto simp: ask_question_def Let_def split: option.splits list.splits prod.splits sum.splits)

text \<open>
  C7. When the pipeline raises on a request that reaches it, the handler returns a
  response whose answer is \<open>Error processing question:\<close> followed by the message of the
  exception, with no contexts and confidence 0; and on every request the handler returns a
  response: no exception leaves it.
\<close>

theorem ask_pipeline_failure_reported:
  assumes "\<not> list_all py_isspace (req_question payload)"
    and "fst (rag ext (req_question payload) (d # ds) DOC_EMBEDDINGS (req_k payload) w) = Inl e"
  shows "fst (ask_question ext (Some (d # ds)) DOC_EMBEDDINGS payload w) =
           Inr \<lparr>resp_question = req_question payload, resp_k = req_k payload,
                answer = ''Error processing question: '' @ error_str e,
                contexts = [], confidence = Fin 0\<rparr>
       \<and> (\<exists>resp. fst (ask_question ext D E payload w') = Inr resp)"
proof -
  have "py_strip (req_question payload) \<noteq> []" "req_question payload \<noteq> []"
    using assms(1) by (auto simp: py_strip_empty_iff)
  then show ?thesis using assms(2) ask_question_total[of ext D E payload w']
    by (auto simp: ask_question_def Let_def split: prod.splits sum.splits)
qed

text \<open>The theorem at a chat model that times out.\<close>

theorem ask_pipeline_failure_reported_witness:
  "\<not> list_all py_isspace ''hi''
   \<and> fst (rag (stub_ext\<lparr>llm_invoke := \<lambda>sys p. Inl (ProviderError ''timeout'')\<rparr>)
            ''hi'' [''a''] [[1, 0]] 2 world0) = Inl (ProviderError ''timeout'')
   \<and> fst (ask_question (stub_ext\<lparr>llm_invoke := \<lambda>sys p. Inl (ProviderError ''timeout'')\<rparr>)
            (Some [''a'']) [[1, 0]] \<lparr>req_question = ''hi'', req_k = 2\<rparr> world0) =
       Inr \<lparr>resp_question = ''hi'', resp_k = 2, answer = ''Error processing question: timeout'',
            contexts = [], confidence = Fin 0\<rparr>"
proof -
  let ?ext = "stub_ext\<lparr>llm_invoke := \<lambda>sys p. Inl (ProviderError ''timeout'')\<rparr>"
  let ?p = "\<lparr>req_question = ''hi'', req_k = 2\<rparr>"
  have b: "\<not> list_all py_isspace (req_question ?p)" by (simp add: py_isspace_def)
  have r: "fst (rag ?ext (req_question ?p) (''a'' # []) [[1, 0]] (req_k ?p) world0) =
      Inl (ProviderError ''timeout'')"
    by (simp add: run_simps)
  show ?thesis
    using ask_pipeline_failure_reported[OF b r] b r by simp
qed

section \<open>Properties of document loading\<close>

lemma pdf_not_txt: "py_endswith path ''.pdf'' \<Longrightarrow> \<not> py_endswith path ''.txt''"
  by (auto simp: py_endswith_def)

text \<open>
  C9. \<open>load_documents\<close> raises \<open>ValueError\<close> on every path that does not end in \<open>.txt\<close>, a
  path ending in \<open>.pdf\<close> included, and \<open>build_index\<close> then raises the same error before any
  embedding call: no PDF is loaded through them.
\<close>

theorem load_documents_rejects_non_txt:
  assumes "\<not> py_endswith path ''.txt'' \<or> py_endswith path ''.pdf''"
  shows "load_documents read_lines path = Inl (ValueError (''Unsupported file format: '' @ path))
       \<and> build_index ext read_lines path w =
           (Inl (ValueError (''Unsupported file format: '' @ path)), w)"
proof -
  have "\<not> py_endswith path ''.txt''" using assms pdf_not_txt by blast
  then show ?thesis by (simp add: load_documents_def build_index_def)
qed

text \<open>The theorem at the path of the PDF the service ships with.\<close>

theorem load_documents_rejects_non_txt_witness:
  "py_endswith ''data/doc.pdf'' ''.pdf''
   \<and> load_pdf (\<lambda>p. Inr [''page one'']) ''data/doc.pdf'' = Inr [''page one'']
   \<and> load_documents (\<lambda>p. Inr [''page one'']) ''data/doc.pdf'' =
       Inl (ValueError ''Unsupported file format: data/doc.pdf'')
   \<and> build_index stub_ext (\<lambda>p. Inr [''page one'']) ''data/doc.pdf'' world0 =
       (Inl (ValueError ''Unsupported file format: data/doc.pdf''), world0)"
proof -
  have p: "py_endswith ''data/doc.pdf'' ''.pdf''" by (simp add: py_endswith_def)
  then have h: "\<not> py_endswith ''data/doc.pdf'' ''.txt'' \<or> py_endswith ''data/doc.pdf'' ''.pdf''"
    by simp
  show ?thesis
    using load_documents_rejects_non_txt[OF h, of "\<lambda>p. Inr [''page one'']" stub_ext world0] p
    by (simp add: load_pdf_def)
qed

text \<open>A text file, for comparison: blank lines are dropped and the others stripped.\<close>

lemma load_documents_txt_example:
  "load_documents (\<lambda>p. Inr ['' a  '', ''   '', ''b'']) ''input.txt'' = Inr [''a'', ''b'']"
  by (simp add: load_documents_def load_txt_def py_endswith_def py_strip_def py_isspace_def)

end
